theory Spec2Isabelle
  imports Main "HOL-Library.Sublist"
begin

section \<open>Values shared by all components\<close>

text \<open>
  JavaScript numbers that the program handles (identifiers, statistics, page sizes,
  offsets) are integers far below \<open>2^53\<close> and are modelled as \<open>int\<close>. Strings are
  \<open>string\<close>: lists of 8-bit code units, read as Latin-1. A rejected promise or a thrown
  exception is a value \<open>Inl e\<close> of a sum type, \<open>e\<close> being the error's message.
\<close>

type_synonym js_error = string

text \<open>\<open>logger.ts\<close>: the console, one entry per line written. \<open>logger.info\<close> and
  \<open>logger.warn\<close> write when \<open>IS_DEBUG_MODE\<close> is set, \<open>logger.error\<close> always; the second
  argument of \<open>logger.error\<close> is kept with its message.\<close>

datatype log_entry = is_Info: Info string | is_Warn: Warn string | is_Error: Error string js_error

definition IS_DEBUG_MODE :: bool where
  "IS_DEBUG_MODE = True"

definition log_info :: "string \<Rightarrow> log_entry list \<Rightarrow> log_entry list" where
  "log_info message lg = (if IS_DEBUG_MODE then lg @ [Info message] else lg)"

definition log_warn :: "string \<Rightarrow> log_entry list \<Rightarrow> log_entry list" where
  "log_warn message lg = (if IS_DEBUG_MODE then lg @ [Warn message] else lg)"

definition log_error :: "string \<Rightarrow> js_error \<Rightarrow> log_entry list \<Rightarrow> log_entry list" where
  "log_error message e lg = lg @ [Error message e]"

text \<open>The truthiness of a number and of a string, as \<open>||\<close> and \<open>!!\<close> read them.\<close>

definition truthy_num :: "int \<Rightarrow> bool" where
  "truthy_num n = (n \<noteq> 0)"

definition truthy_str :: "string \<Rightarrow> bool" where
  "truthy_str s = (s \<noteq> [])"

text \<open>Decimal rendering of an integer inside a template literal.\<close>

fun digits :: "nat \<Rightarrow> string" where
  "digits n = (if n < 10 then [char_of (48 + n)] else digits (n div 10) @ [char_of (48 + n mod 10)])"

declare digits.simps [simp del]

definition num_str :: "int \<Rightarrow> string" where
  "num_str n = (if n < 0 then CHR ''-'' # digits (nat (- n)) else digits (nat n))"

text \<open>\<open>String.prototype.toLowerCase\<close> on Latin-1 code units: A-Z and the accented capitals
  (all of 0xC0-0xDE but the multiplication sign 0xD7) move up by 32.\<close>

definition lower_char :: "char \<Rightarrow> char" where
  "lower_char c =
     (let n = (of_char c :: nat)
      in if (65 \<le> n \<and> n \<le> 90) \<or> (192 \<le> n \<and> n \<le> 222 \<and> n \<noteq> 215) then char_of (n + 32) else c)"

definition toLowerCase :: "string \<Rightarrow> string" where
  "toLowerCase s = map lower_char s"

text \<open>\<open>String.prototype.startsWith\<close>: code unit by code unit.\<close>

fun startsWith :: "string \<Rightarrow> string \<Rightarrow> bool" where
  "startsWith s [] = True"
| "startsWith [] (q # qs) = False"
| "startsWith (c # cs) (q # qs) = (c = q \<and> startsWith cs qs)"

text \<open>\<open>String.prototype.trim\<close>: the white space of the Latin-1 range is TAB, LF, VT, FF, CR,
  the space and the no-break space.\<close>

definition is_space :: "char \<Rightarrow> bool" where
  "is_space c = ((of_char c :: nat) \<in> {9, 10, 11, 12, 13, 32, 160})"

definition trim :: "string \<Rightarrow> string" where
  "trim s = rev (dropWhile is_space (rev (dropWhile is_space s)))"

text \<open>\<open>s.split('/')\<close>: the pieces between the separators, empty pieces included.\<close>

fun split_slash :: "string \<Rightarrow> string list" where
  "split_slash [] = [[]]"
| "split_slash (c # cs) =
     (if c = CHR ''/'' then [] # split_slash cs
      else (case split_slash cs of [] \<Rightarrow> [[c]] | p # ps \<Rightarrow> (c # p) # ps))"

text \<open>\<open>url.split('/').filter(Boolean).pop()\<close>, then interpolated into a template literal:
  the last non-empty piece, and the text \<open>undefined\<close> when there is none.\<close>

definition url_id_segment :: "string \<Rightarrow> string" where
  "url_id_segment url =
     (case filter truthy_str (split_slash url) of
        [] \<Rightarrow> ''undefined''
      | p # ps \<Rightarrow> last (p # ps))"

section \<open>Domain model (\<open>pokemon.service.ts\<close>, \<open>db.ts\<close>)\<close>

record Stats =
  hp :: int
  attack :: int
  defense :: int
  specialAttack :: int
  specialDefense :: int
  speed :: int

text \<open>The interface \<open>Pokemon\<close>. Its field \<open>id\<close> is \<open>idn\<close> here (\<open>id\<close> is the identity
  function of HOL).\<close>

record Pokemon =
  idn :: int
  name :: string
  imageUrl :: string
  types :: "string list"
  height :: int
  weight :: int
  stats :: Stats

text \<open>\<open>Omit<CaughtPokemon, 'caughtAt'>\<close>, the argument of \<open>catchPokemon\<close>, and
  \<open>CaughtPokemon\<close> itself; \<open>caughtAt\<close> is a time in milliseconds. The optional field
  \<open>note\<close> is \<open>note_txt\<close> (\<open>note\<close> is a keyword of Isar).\<close>

record Candidate = Pokemon +
  note_txt :: "string option"

record CaughtPokemon = Candidate +
  caughtAt :: int

text \<open>The raw payload \<open>PokeAPIResponse\<close>. Record fields are global names, so the fields
  that \<open>Pokemon\<close> has too carry the prefix \<open>raw_\<close>.\<close>

record Artwork =
  art_front_default :: string

record OtherSprites =
  official_artwork :: "Artwork option"

record Sprites =
  front_default :: string
  other :: "OtherSprites option"

record RawStat =
  base_stat :: int
  stat_name :: string

record PokeAPIResponse =
  raw_id :: int
  raw_name :: string
  raw_height :: int
  raw_weight :: int
  sprites :: Sprites
  raw_types :: "string list"
  raw_stats :: "RawStat list"

text \<open>An item of \<open>PokeAPIListResponse.results\<close>, which is also a name index entry.\<close>

record NameRef =
  ref_name :: string
  url :: string

section \<open>The adapter\<close>

text \<open>\<open>data.stats.find((s) => s.stat.name === nm)?.base_stat || 0\<close>, the expression that
  \<open>adaptPokemon\<close> writes once per field.\<close>

definition stat_or_zero :: "string \<Rightarrow> RawStat list \<Rightarrow> int" where
  "stat_or_zero nm sts =
     (case List.find (\<lambda>s. stat_name s = nm) sts of
        None \<Rightarrow> 0
      | Some s \<Rightarrow> if truthy_num (base_stat s) then base_stat s else 0)"

text \<open>\<open>data.sprites.other?.['official-artwork']?.front_default || data.sprites.front_default\<close>\<close>

definition artwork_or_default :: "Sprites \<Rightarrow> string" where
  "artwork_or_default sp =
     (case other sp of
        None \<Rightarrow> front_default sp
      | Some ot \<Rightarrow>
          (case official_artwork ot of
             None \<Rightarrow> front_default sp
           | Some art \<Rightarrow>
               if truthy_str (art_front_default art) then art_front_default art
               else front_default sp))"

definition adaptPokemon :: "PokeAPIResponse \<Rightarrow> Pokemon" where
  "adaptPokemon data =
     \<lparr> idn = raw_id data,
       name = raw_name data,
       imageUrl = artwork_or_default (sprites data),
       types = raw_types data,
       height = raw_height data,
       weight = raw_weight data,
       stats =
         \<lparr> hp = stat_or_zero ''hp'' (raw_stats data),
           attack = stat_or_zero ''attack'' (raw_stats data),
           defense = stat_or_zero ''defense'' (raw_stats data),
           specialAttack = stat_or_zero ''special-attack'' (raw_stats data),
           specialDefense = stat_or_zero ''special-defense'' (raw_stats data),
           speed = stat_or_zero ''speed'' (raw_stats data) \<rparr> \<rparr>"

section \<open>Detail resolver (\<open>usePokemonDetails.ts\<close>)\<close>

text \<open>
  What the hook reads on one render: the \<open>caughtAt\<close> search parameter, the two pieces of
  React state fed by the local lookup, and the three fields of the remote query.
\<close>

record details_inputs =
  sharedDateStr :: "string option"
  localPokemon :: "CaughtPokemon option"
  isLocalLoading :: bool
  apiPokemon :: "Pokemon option"
  isApiLoading :: bool
  isApiError :: bool

text \<open>The fused value is a remote entity, a local record, or \<open>undefined\<close>.\<close>

datatype resolved = Remote Pokemon | Owned CaughtPokemon

text \<open>\<open>const isSharedView = !!sharedDateStr\<close>\<close>

definition isSharedView :: "details_inputs \<Rightarrow> bool" where
  "isSharedView st = (case sharedDateStr st of None \<Rightarrow> False | Some s \<Rightarrow> truthy_str s)"

definition pokemon :: "details_inputs \<Rightarrow> resolved option" where
  "pokemon st =
     (if isSharedView st then map_option Remote (apiPokemon st)
      else (case localPokemon st of
              Some l \<Rightarrow> Some (Owned l)
            | None \<Rightarrow> map_option Remote (apiPokemon st)))"

definition isEffectiveLoading :: "details_inputs \<Rightarrow> bool" where
  "isEffectiveLoading st =
     ((isApiLoading st \<or> (isLocalLoading st \<and> \<not> isSharedView st)) \<and> pokemon st = None)"

definition isEffectiveError :: "details_inputs \<Rightarrow> bool" where
  "isEffectiveError st =
     (isApiError st \<and> localPokemon st = None \<and> \<not> isSharedView st \<and> \<not> isLocalLoading st)"

section \<open>Collaborators of the collection cache\<close>

text \<open>
  Every call that leaves the process is recorded, in order: the image request of
  \<open>image-utils.ts\<close> and the write calls on the table \<open>db.caughtPokemon\<close>.
\<close>

datatype io_call =
    Fetch string
  | DbAdd CaughtPokemon
  | DbBulkDelete "int list"
  | DbUpdate int string

text \<open>
  The state that the operations read and write: the two fields of the Zustand store,
  the IndexedDB table keyed by \<open>id\<close>, the log and the calls made so far.
\<close>

record world =
  caughtIds :: "int set"
  isInitialized :: bool
  tbl :: "int \<rightharpoonup> CaughtPokemon"
  logged :: "log_entry list"
  io :: "io_call list"

text \<open>
  What the outside answers during one operation. \<open>fetch\<close> gives the outcome of
  \<open>fetch(imageUrl)\<close> and, inside it, of \<open>response.blob()\<close>; \<open>readAsDataURL\<close> gives the
  event of the \<open>FileReader\<close> (\<open>Inl\<close>: its \<open>error\<close> event, \<open>Inr\<close>: the data URL at
  \<open>loadend\<close>); \<open>db_fault\<close> is a failure of the store itself (quota, corruption);
  \<open>now\<close> is \<open>new Date()\<close>.
\<close>

record env =
  fetch :: "string \<Rightarrow> js_error + (js_error + string)"
  readAsDataURL :: "string \<Rightarrow> js_error + string"
  db_fault :: "js_error option"
  now :: int

definition logger_warn :: "string \<Rightarrow> world \<Rightarrow> world" where
  "logger_warn message w = w\<lparr>logged := log_warn message (logged w)\<rparr>"

definition logger_error :: "string \<Rightarrow> js_error \<Rightarrow> world \<Rightarrow> world" where
  "logger_error message e w = w\<lparr>logged := log_error message e (logged w)\<rparr>"

subsection \<open>\<open>image-utils.ts\<close>\<close>

text \<open>
  The \<open>try\<close> block awaits \<open>fetch\<close> and \<open>response.blob()\<close>, so their failures reach the
  \<open>catch\<close>, which logs and returns the URL. The promise around the \<open>FileReader\<close> is
  returned without \<open>await\<close>: the function has left the \<open>try\<close> block when that promise
  settles, and a rejection by \<open>reader.onerror\<close> becomes the rejection of the function's
  own promise.
\<close>

definition convertImageUrlToBase64 :: "env \<Rightarrow> string \<Rightarrow> world \<Rightarrow> (js_error + string) \<times> world" where
  "convertImageUrlToBase64 e imageUrl' w =
     (let w1 = w\<lparr>io := io w @ [Fetch imageUrl']\<rparr>
      in case fetch e imageUrl' of
           Inl err \<Rightarrow>
             (Inr imageUrl', logger_error ''Failed to convert image to offline format'' err w1)
         | Inr response \<Rightarrow>
             (case response of
                Inl err \<Rightarrow>
                  (Inr imageUrl', logger_error ''Failed to convert image to offline format'' err w1)
              | Inr blob \<Rightarrow>
                  (case readAsDataURL e blob of
                     Inl err \<Rightarrow> (Inl err, w1)
                   | Inr base64String \<Rightarrow> (Inr base64String, w1))))"

subsection \<open>The table \<open>db.caughtPokemon\<close> (Dexie)\<close>

text \<open>\<open>add\<close> fails when the store fails and, \<open>id\<close> being the primary key, when the key is
  present.\<close>

definition db_add_error :: "env \<Rightarrow> int \<Rightarrow> (int \<rightharpoonup> CaughtPokemon) \<Rightarrow> js_error option" where
  "db_add_error e k t =
     (case db_fault e of
        Some err \<Rightarrow> Some err
      | None \<Rightarrow> (case t k of Some r \<Rightarrow> Some ''ConstraintError'' | None \<Rightarrow> None))"

definition db_add :: "env \<Rightarrow> CaughtPokemon \<Rightarrow> world \<Rightarrow> (js_error + unit) \<times> world" where
  "db_add e r w =
     (let w1 = w\<lparr>io := io w @ [DbAdd r]\<rparr>
      in case db_add_error e (idn r) (tbl w) of
           Some err \<Rightarrow> (Inl err, w1)
         | None \<Rightarrow> (Inr (), w1\<lparr>tbl := (tbl w)(idn r \<mapsto> r)\<rparr>))"

text \<open>\<open>bulkDelete\<close> removes the keys it is given; a key that is absent is no error.\<close>

definition db_bulkDelete :: "env \<Rightarrow> int list \<Rightarrow> world \<Rightarrow> (js_error + unit) \<times> world" where
  "db_bulkDelete e ids w =
     (let w1 = w\<lparr>io := io w @ [DbBulkDelete ids]\<rparr>
      in case db_fault e of
           Some err \<Rightarrow> (Inl err, w1)
         | None \<Rightarrow> (Inr (), w1\<lparr>tbl := (\<lambda>k. if k \<in> set ids then None else tbl w k)\<rparr>))"

text \<open>\<open>update(id, {note})\<close> changes the record under the key, and nothing when there is
  none (Dexie then resolves with 0).\<close>

definition db_update :: "env \<Rightarrow> int \<Rightarrow> string \<Rightarrow> world \<Rightarrow> (js_error + unit) \<times> world" where
  "db_update e k safeNote w =
     (let w1 = w\<lparr>io := io w @ [DbUpdate k safeNote]\<rparr>
      in case db_fault e of
           Some err \<Rightarrow> (Inl err, w1)
         | None \<Rightarrow>
             (case tbl w k of
                None \<Rightarrow> (Inr (), w1)
              | Some r \<Rightarrow> (Inr (), w1\<lparr>tbl := (tbl w)(k \<mapsto> r\<lparr>note_txt := Some safeNote\<rparr>)\<rparr>)))"

section \<open>Collection cache (\<open>pokedex.store.ts\<close>)\<close>

definition MAX_NOTE_LENGTH :: nat where
  "MAX_NOTE_LENGTH = 200"

text \<open>\<open>{ ...pokemon, imageUrl: offlineImage, caughtAt: new Date() }\<close>\<close>

definition caught_record :: "Candidate \<Rightarrow> string \<Rightarrow> int \<Rightarrow> CaughtPokemon" where
  "caught_record p offlineImage t =
     \<lparr> idn = idn p, name = name p, imageUrl = offlineImage, types = types p,
       height = height p, weight = weight p, stats = stats p,
       note_txt = note_txt p, caughtAt = t \<rparr>"

definition catchPokemon :: "env \<Rightarrow> Candidate \<Rightarrow> world \<Rightarrow> world" where
  "catchPokemon e p w =
     (let currentIds = caughtIds w
      in if idn p \<in> currentIds
         then logger_warn
                (''Duplicate capture attempt blocked: '' @ name p @ '' ('' @ num_str (idn p) @ '')'') w
         else
           let previousState = currentIds;
               nextState = insert (idn p) previousState;
               w1 = w\<lparr>caughtIds := nextState\<rparr>
           in case convertImageUrlToBase64 e (imageUrl p) w1 of
                (Inl err, w2) \<Rightarrow>
                  (logger_error ''DB Write Failed (Catch)'' err w2)\<lparr>caughtIds := previousState\<rparr>
              | (Inr offlineImage, w2) \<Rightarrow>
                  (case db_add e (caught_record p offlineImage (now e)) w2 of
                     (Inl err, w3) \<Rightarrow>
                       (logger_error ''DB Write Failed (Catch)'' err w3)\<lparr>caughtIds := previousState\<rparr>
                   | (Inr u, w3) \<Rightarrow> w3))"

definition releasePokemon :: "env \<Rightarrow> int list \<Rightarrow> world \<Rightarrow> world" where
  "releasePokemon e ids w =
     (if length ids = 0 then w
      else
        let currentIds = caughtIds w;
            previousState = currentIds;
            nextState = fold (\<lambda>i s. s - {i}) ids previousState;
            w1 = w\<lparr>caughtIds := nextState\<rparr>
        in case db_bulkDelete e ids w1 of
             (Inl err, w2) \<Rightarrow>
               (logger_error ''DB Delete Failed (Release)'' err w2)\<lparr>caughtIds := previousState\<rparr>
           | (Inr u, w2) \<Rightarrow> w2)"

text \<open>\<open>safeNote\<close> is assigned twice in the source: the trimmed text, then its first
  \<open>MAX_NOTE_LENGTH\<close> code units (\<open>substring(0, MAX_NOTE_LENGTH)\<close>) when it is longer.\<close>

definition updatePokemonNote :: "env \<Rightarrow> int \<Rightarrow> string \<Rightarrow> world \<Rightarrow> world" where
  "updatePokemonNote e k note_in w =
     (let safeNote = trim note_in;
          (safeNote, w1) =
             (if length safeNote > MAX_NOTE_LENGTH
              then (take MAX_NOTE_LENGTH safeNote,
                    logger_warn (''Note truncated for Pokemon ID '' @ num_str k @ ''.'') w)
              else (safeNote, w))
      in case db_update e k safeNote w1 of
           (Inl err, w2) \<Rightarrow> logger_error ''DB Update Failed (Note)'' err w2
         | (Inr u, w2) \<Rightarrow> w2)"

section \<open>The HTTP client (\<open>lib/axios.ts\<close>)\<close>

text \<open>
  The remote catalog behind \<open>api.get\<close>, by response type: the answer to a list request
  (its \<open>data.results\<close>) and the answer to a detail request, each for the path requested.
  The detail requests of one page are in flight together; \<open>arrival\<close> is the position in
  time at which the answer to a path comes back.
\<close>

record api =
  get_list :: "string \<Rightarrow> js_error + NameRef list"
  get_pokemon :: "string \<Rightarrow> js_error + PokeAPIResponse"
  arrival :: "string \<Rightarrow> nat"

text \<open>The request interceptor runs before a request is sent. For \<open>api.get(url)\<close> the
  method is \<open>get\<close>, in capitals \<open>GET\<close>, and \<open>config.url || ''\<close> is the path.\<close>

definition request_interceptor :: "string \<Rightarrow> log_entry list \<Rightarrow> log_entry list" where
  "request_interceptor url' lg = log_info (''[API Request] GET '' @ url') lg"

text \<open>The response interceptor, on an error: \<open>error.config?.url || 'Unknown URL'\<close> and
  \<open>error.message || 'Unknown Error'\<close> are logged and the error is passed on.\<close>

definition response_error_interceptor :: "string \<Rightarrow> js_error \<Rightarrow> log_entry list \<Rightarrow> log_entry list" where
  "response_error_interceptor url' err lg =
     log_error (''[API Error] '' @ (if truthy_str url' then url' else ''Unknown URL''))
       (if truthy_str err then err else ''Unknown Error'') lg"

section \<open>Resilient list fetcher and search index\<close>

text \<open>An outcome of \<open>Promise.allSettled\<close>.\<close>

datatype 'a settled = Fulfilled 'a | Rejected js_error

text \<open>The closure mapped over the references, the same in \<open>getPokemonList\<close> and in the
  hydration step of \<open>usePokemonSearch\<close>: the identifier is cut out of the URL, the detail
  is requested and adapted.\<close>

definition detail_path :: "NameRef \<Rightarrow> string" where
  "detail_path result = ''/pokemon/'' @ url_id_segment (url result)"

definition detail_promise :: "api \<Rightarrow> NameRef \<Rightarrow> Pokemon settled" where
  "detail_promise a result =
     (case get_pokemon a (detail_path result) of
        Inl err \<Rightarrow> Rejected err
      | Inr details \<Rightarrow> Fulfilled (adaptPokemon details))"

text \<open>The references in the order in which their answers come back. References that
  share a position in time (those of one path do) stay in the order of the page.\<close>

definition arrival_order :: "api \<Rightarrow> NameRef list \<Rightarrow> NameRef list" where
  "arrival_order a refs = sort_key (\<lambda>r. arrival a (detail_path r)) refs"

text \<open>What the interceptors log for the detail requests of a page, once all have settled:
  the requests as they are made, in the order of the page, then the errors as the answers
  come back.\<close>

definition log_response :: "api \<Rightarrow> NameRef \<Rightarrow> log_entry list \<Rightarrow> log_entry list" where
  "log_response a r lg =
     (case get_pokemon a (detail_path r) of
        Inl err \<Rightarrow> response_error_interceptor (detail_path r) err lg
      | Inr details \<Rightarrow> lg)"

definition detail_logs :: "api \<Rightarrow> NameRef list \<Rightarrow> log_entry list \<Rightarrow> log_entry list" where
  "detail_logs a refs lg =
     fold (log_response a) (arrival_order a refs)
       (fold (\<lambda>r. request_interceptor (detail_path r)) refs lg)"

text \<open>\<open>results.filter((r) => r.status === 'fulfilled').map((r) => r.value)\<close>\<close>

fun fulfilled_values :: "'a settled list \<Rightarrow> 'a list" where
  "fulfilled_values [] = []"
| "fulfilled_values (Fulfilled v # rs) = v # fulfilled_values rs"
| "fulfilled_values (Rejected err # rs) = fulfilled_values rs"

text \<open>The text of the warning, and the path of the list request.\<close>

definition failed_warning :: "int \<Rightarrow> string" where
  "failed_warning failedCount =
     ''Recovered from '' @ num_str failedCount @ '' failed Pok'' @ [CHR 0xE9]
       @ ''mon requests. Partial data returned.''"

definition list_path :: "int \<Rightarrow> int \<Rightarrow> string" where
  "list_path limit offset = ''/pokemon?limit='' @ num_str limit @ ''&offset='' @ num_str offset"

text \<open>The function returns the page, or the error of the list request, and the log.\<close>

definition getPokemonList :: "api \<Rightarrow> int \<Rightarrow> int \<Rightarrow> log_entry list \<Rightarrow> (js_error + Pokemon list) \<times> log_entry list" where
  "getPokemonList a limit offset lg =
     (let lg1 = request_interceptor (list_path limit offset) lg
      in case get_list a (list_path limit offset) of
           Inl err \<Rightarrow> (Inl err, response_error_interceptor (list_path limit offset) err lg1)
         | Inr refs \<Rightarrow>
             (let results = map (detail_promise a) refs;
                  lg2 = detail_logs a refs lg1;
                  successfulPokemons = fulfilled_values results;
                  failedCount = int (length results) - int (length successfulPokemons)
              in (Inr successfulPokemons,
                  if failedCount > 0 then log_warn (failed_warning failedCount) lg2 else lg2)))"

subsection \<open>\<open>usePokemonSearch.ts\<close>\<close>

definition isSearching :: "string \<Rightarrow> bool" where
  "isSearching searchQuery = (length searchQuery \<ge> 2)"

definition filtered_names :: "NameRef list \<Rightarrow> string \<Rightarrow> NameRef list" where
  "filtered_names allNames searchQuery =
     filter (\<lambda>p. startsWith (toLowerCase (ref_name p)) (toLowerCase searchQuery)) allNames"

text \<open>\<open>Promise.all\<close> over promises given with the time at which each settles: every value
  in the order of the promises, or the rejection that happens first in time.\<close>

fun first_rejection :: "'a settled list \<Rightarrow> js_error option" where
  "first_rejection [] = None"
| "first_rejection (Rejected err # rs) = Some err"
| "first_rejection (Fulfilled v # rs) = first_rejection rs"

definition promise_all :: "(nat \<times> 'a settled) list \<Rightarrow> js_error + 'a list" where
  "promise_all ps =
     (case first_rejection (map snd (sort_key fst ps)) of
        Some err \<Rightarrow> Inl err
      | None \<Rightarrow> Inr (fulfilled_values (map snd ps)))"

definition itemsToShow :: "NameRef list \<Rightarrow> string \<Rightarrow> nat \<Rightarrow> NameRef list" where
  "itemsToShow allNames searchQuery page = take (20 * page) (filtered_names allNames searchQuery)"

text \<open>The query function gives the data or the error of the query, and the log once every
  request it made has settled.\<close>

definition search_queryFn :: "api \<Rightarrow> NameRef list option \<Rightarrow> string \<Rightarrow> nat \<Rightarrow> log_entry list \<Rightarrow> (js_error + Pokemon list) \<times> log_entry list" where
  "search_queryFn a allNames searchQuery page lg =
     (case allNames of
        None \<Rightarrow> (Inr [], lg)
      | Some names \<Rightarrow>
          (let items = itemsToShow names searchQuery page
           in (promise_all (map (\<lambda>lite. (arrival a (detail_path lite), detail_promise a lite)) items),
               detail_logs a items lg)))"

text \<open>The detail query of the hook runs when \<open>enabled: isSearching && !!allNames\<close> holds.\<close>

definition search_query :: "api \<Rightarrow> NameRef list option \<Rightarrow> string \<Rightarrow> nat \<Rightarrow> log_entry list \<Rightarrow> ((js_error + Pokemon list) \<times> log_entry list) option" where
  "search_query a allNames searchQuery page lg =
     (if isSearching searchQuery \<and> allNames \<noteq> None
      then Some (search_queryFn a allNames searchQuery page lg)
      else None)"

section \<open>The specification's own wording\<close>

text \<open>
  The loading flag as the specification words it: remote fetch outstanding or local
  lookup outstanding, suppressed once a resolved value exists.
\<close>

definition spec_loading :: "details_inputs \<Rightarrow> bool" where
  "spec_loading st = ((isApiLoading st \<or> isLocalLoading st) \<and> pokemon st = None)"

text \<open>
  For a page of references: \<open>K\<close>, the number of detail lookups that fail, and the
  entities adapted from the lookups that succeed, in the order of the page.
\<close>

definition failed_lookups :: "api \<Rightarrow> NameRef list \<Rightarrow> nat" where
  "failed_lookups a refs = length (filter (\<lambda>r. isl (get_pokemon a (detail_path r))) refs)"

definition adapted_successes :: "api \<Rightarrow> NameRef list \<Rightarrow> Pokemon list" where
  "adapted_successes a refs =
     List.map_filter
       (\<lambda>r. case get_pokemon a (detail_path r) of Inl err \<Rightarrow> None | Inr d \<Rightarrow> Some (adaptPokemon d))
       refs"

text \<open>
  The image-embedding step fails, in the words of the specification, on any failure:
  network or CORS (the request), the blob, or the decoding by the \<open>FileReader\<close>. The
  adapter absorbs the failures of the request and of the blob: it logs them and answers
  with the remote URL.
\<close>

definition embed_step_fails :: "env \<Rightarrow> string \<Rightarrow> bool" where
  "embed_step_fails e u =
     (case fetch e u of
        Inl err \<Rightarrow> True
      | Inr response \<Rightarrow>
          (case response of Inl err \<Rightarrow> True | Inr blob \<Rightarrow> isl (readAsDataURL e blob)))"

definition embed_absorbs_failure :: "env \<Rightarrow> string \<Rightarrow> bool" where
  "embed_absorbs_failure e u = (case fetch e u of Inl err \<Rightarrow> True | Inr response \<Rightarrow> isl response)"

text \<open>
  A name starts with a query case-insensitively when the query is no longer than the name
  and each of its characters is the same letter as the character of the name at its
  place: the same character, or a capital and its small letter (the capitals of Latin-1
  are A to Z and 0xC0 to 0xDE without the multiplication sign, the small letter is 32
  further).
\<close>

definition is_capital :: "char \<Rightarrow> bool" where
  "is_capital c =
     ((65 \<le> (of_char c :: nat) \<and> (of_char c :: nat) \<le> 90) \<or>
      (192 \<le> (of_char c :: nat) \<and> (of_char c :: nat) \<le> 222 \<and> (of_char c :: nat) \<noteq> 215))"

definition same_letter :: "char \<Rightarrow> char \<Rightarrow> bool" where
  "same_letter c d =
     (c = d \<or> (is_capital c \<and> (of_char d :: nat) = of_char c + 32)
            \<or> (is_capital d \<and> (of_char c :: nat) = of_char d + 32))"

definition ci_starts_with :: "string \<Rightarrow> string \<Rightarrow> bool" where
  "ci_starts_with nm q = (length q \<le> length nm \<and> list_all2 same_letter q (take (length q) nm))"

section \<open>Concrete inputs, after the repository's tests\<close>

definition pikachu_payload :: PokeAPIResponse where
  "pikachu_payload =
     \<lparr> raw_id = 25, raw_name = ''pikachu'', raw_height = 4, raw_weight = 60,
       sprites = \<lparr> front_default = ''pixel-pikachu.png'',
                   other = Some \<lparr> official_artwork = Some \<lparr> art_front_default = ''hd-pikachu.png'' \<rparr> \<rparr> \<rparr>,
       raw_types = [''electric''],
       raw_stats = [\<lparr> base_stat = 35, stat_name = ''hp'' \<rparr>, \<lparr> base_stat = 55, stat_name = ''attack'' \<rparr>] \<rparr>"

definition minimal_payload :: "int \<Rightarrow> string \<Rightarrow> PokeAPIResponse" where
  "minimal_payload i nm =
     \<lparr> raw_id = i, raw_name = nm, raw_height = 0, raw_weight = 0,
       sprites = \<lparr> front_default = ''img.png'', other = Some \<lparr> official_artwork = None \<rparr> \<rparr>,
       raw_types = [], raw_stats = [] \<rparr>"

definition pikachu_api :: Pokemon where
  "pikachu_api = adaptPokemon pikachu_payload"

definition pikachu_local :: CaughtPokemon where
  "pikachu_local =
     \<lparr> idn = 25, name = ''pikachu-local'', imageUrl = ''base64'', types = [''electric''],
       height = 4, weight = 60,
       stats = \<lparr> hp = 35, attack = 55, defense = 40, specialAttack = 50, specialDefense = 50, speed = 90 \<rparr>,
       note_txt = None, caughtAt = 1704067200000 \<rparr>"

definition mockPokemon :: Candidate where
  "mockPokemon =
     \<lparr> idn = 25, name = ''pikachu'', imageUrl = ''https://pikachu.com/image.png'',
       types = [''electric''], height = 4, weight = 60,
       stats = \<lparr> hp = 35, attack = 55, defense = 40, specialAttack = 50, specialDefense = 50, speed = 90 \<rparr>,
       note_txt = Some [] \<rparr>"

definition empty_world :: world where
  "empty_world = \<lparr> caughtIds = {}, isInitialized = False, tbl = Map.empty, logged = [], io = [] \<rparr>"

definition env_ok :: env where
  "env_ok = \<lparr> fetch = (\<lambda>u. Inr (Inr ''png-bytes'')), readAsDataURL = (\<lambda>b. Inr ''fake-base64''),
              db_fault = None, now = 1704067200000 \<rparr>"

definition env_disk_full :: env where
  "env_disk_full = env_ok \<lparr> db_fault := Some ''Disk Full'' \<rparr>"

definition env_offline :: env where
  "env_offline = env_ok \<lparr> fetch := (\<lambda>u. Inl ''Network Error'') \<rparr>"

definition env_reader_error :: env where
  "env_reader_error = env_ok \<lparr> readAsDataURL := (\<lambda>b. Inl ''NotReadableError'') \<rparr>"

definition owner_view :: details_inputs where
  "owner_view =
     \<lparr> sharedDateStr = None, localPokemon = Some pikachu_local, isLocalLoading = False,
       apiPokemon = Some pikachu_api, isApiLoading = False, isApiError = False \<rparr>"

definition shared_view :: details_inputs where
  "shared_view = owner_view \<lparr> sharedDateStr := Some ''2024-01-01'' \<rparr>"

definition discovery_view :: details_inputs where
  "discovery_view = owner_view \<lparr> localPokemon := None \<rparr>"

text \<open>The first render of a shared link whose remote query is not fetching (it is disabled
  when the route's identifier is not a number): the local lookup has not answered yet and
  there is no remote value.\<close>

definition shared_first_render :: details_inputs where
  "shared_first_render =
     \<lparr> sharedDateStr = Some ''2024-01-01'', localPokemon = None, isLocalLoading = True,
       apiPokemon = None, isApiLoading = False, isApiError = False \<rparr>"

definition owner_first_render :: details_inputs where
  "owner_first_render = shared_first_render \<lparr> sharedDateStr := None \<rparr>"

definition world_with_pikachu :: world where
  "world_with_pikachu = empty_world \<lparr> caughtIds := {25}, tbl := [25 \<mapsto> pikachu_local] \<rparr>"

definition note_leading_space :: string where
  "note_leading_space = CHR '' '' # replicate 249 (CHR ''a'')"

text \<open>A tab and a space, the note, then a space, a line feed and a no-break space.\<close>

definition note_padded :: string where
  "note_padded = [CHR 0x09, CHR '' ''] @ ''Found near the river'' @ [CHR '' '', CHR 0x0A, CHR 0xA0]"

text \<open>A page of three references. The lookup of the second fails, and in \<open>api_two_failures\<close>
  the lookup of the third fails too and comes back before the failure of the second.\<close>

definition page_refs :: "NameRef list" where
  "page_refs =
     [\<lparr> ref_name = ''bulbasaur'', url = ''.../1/'' \<rparr>,
      \<lparr> ref_name = ''missingno'', url = ''.../9999/'' \<rparr>,
      \<lparr> ref_name = ''ivysaur'', url = ''.../2/'' \<rparr>]"

definition api_partial :: api where
  "api_partial =
     \<lparr> get_list = (\<lambda>path. if path = ''/pokemon?limit=20&offset=0'' then Inr page_refs
                           else Inl ''Not Found''),
       get_pokemon = (\<lambda>path. if path = ''/pokemon/1'' then Inr (minimal_payload 1 ''bulbasaur'')
                              else if path = ''/pokemon/2'' then Inr (minimal_payload 2 ''ivysaur'')
                              else Inl ''Network Error 500''),
       arrival = (\<lambda>path. if path = ''/pokemon/1'' then 2 else if path = ''/pokemon/2'' then 1 else 3) \<rparr>"

definition api_two_failures :: api where
  "api_two_failures =
     api_partial \<lparr> get_pokemon := (\<lambda>path. if path = ''/pokemon/1'' then Inr (minimal_payload 1 ''bulbasaur'')
                                            else if path = ''/pokemon/2'' then Inl ''timeout of 10000ms exceeded''
                                            else Inl ''Network Error 500'') \<rparr>"

definition api_healthy :: api where
  "api_healthy = api_partial \<lparr> get_list := (\<lambda>path. Inr [hd page_refs]) \<rparr>"

definition mockAllNames :: "NameRef list" where
  "mockAllNames =
     [\<lparr> ref_name = ''pikachu'', url = ''https://pokeapi.co/api/v2/pokemon/25/'' \<rparr>,
      \<lparr> ref_name = ''pidgey'', url = ''https://pokeapi.co/api/v2/pokemon/16/'' \<rparr>,
      \<lparr> ref_name = ''bulbasaur'', url = ''https://pokeapi.co/api/v2/pokemon/1/'' \<rparr>,
      \<lparr> ref_name = ''charmander'', url = ''https://pokeapi.co/api/v2/pokemon/4/'' \<rparr>]"

definition example_index :: "NameRef list" where
  "example_index = take 3 mockAllNames"

text \<open>The same index with capitals in the names.\<close>

definition capital_index :: "NameRef list" where
  "capital_index =
     [\<lparr> ref_name = ''Pikachu'', url = ''https://pokeapi.co/api/v2/pokemon/25/'' \<rparr>,
      \<lparr> ref_name = ''PIDGEY'', url = ''https://pokeapi.co/api/v2/pokemon/16/'' \<rparr>,
      \<lparr> ref_name = ''Bulbasaur'', url = ''https://pokeapi.co/api/v2/pokemon/1/'' \<rparr>]"

definition api_search :: api where
  "api_search =
     \<lparr> get_list = (\<lambda>path. Inr mockAllNames),
       get_pokemon = (\<lambda>path. if path = ''/pokemon/25'' then Inr (minimal_payload 25 ''pikachu'')
                              else if path = ''/pokemon/16'' then Inr (minimal_payload 16 ''pidgey'')
                              else Inl ''Not Found''),
       arrival = (\<lambda>path. if path = ''/pokemon/25'' then 2 else 1) \<rparr>"

section \<open>Auxiliary facts\<close>

subsection \<open>Logger and interceptors\<close>

lemma log_info_eq: "log_info m lg = lg @ [Info m]"
  by (simp add: log_info_def IS_DEBUG_MODE_def)

lemma log_warn_eq: "log_warn m lg = lg @ [Warn m]"
  by (simp add: log_warn_def IS_DEBUG_MODE_def)

lemma logger_warn_eq: "logger_warn m w = w\<lparr>logged := logged w @ [Warn m]\<rparr>"
  by (simp add: logger_warn_def log_warn_eq)

lemma logger_error_eq: "logger_error m e w = w\<lparr>logged := logged w @ [Error m e]\<rparr>"
  by (simp add: logger_error_def log_error_def)

lemma num_str_small: "num_str 0 = ''0''" "num_str 1 = ''1''" "num_str 2 = ''2''" "num_str 25 = ''25''"
  by code_simp+

lemma list_path_20_0: "list_path 20 0 = ''/pokemon?limit=20&offset=0''"
  by code_simp

lemma detail_path_nonempty: "detail_path r \<noteq> []"
  by (simp add: detail_path_def)

text \<open>The entries that the interceptors write for the requests of a page and for the
  lookups that fail.\<close>

lemma fold_request_interceptor:
  "fold (\<lambda>r. request_interceptor (detail_path r)) refs lg =
     lg @ map (\<lambda>r. Info (''[API Request] GET '' @ detail_path r)) refs"
  by (induction refs arbitrary: lg) (simp_all add: request_interceptor_def log_info_eq)

lemma fold_log_response:
  "fold (log_response a) rs lg =
     lg @ concat (map (\<lambda>r. case get_pokemon a (detail_path r) of
                              Inl err \<Rightarrow> [Error (''[API Error] '' @ detail_path r)
                                            (if err = [] then ''Unknown Error'' else err)]
                            | Inr d \<Rightarrow> []) rs)"
  by (induction rs arbitrary: lg)
    (simp_all add: log_response_def response_error_interceptor_def log_error_def
      detail_path_nonempty truthy_str_def split: sum.split)

lemma detail_logs_eq:
  "detail_logs a refs lg =
     lg @ map (\<lambda>r. Info (''[API Request] GET '' @ detail_path r)) refs
        @ concat (map (\<lambda>r. case get_pokemon a (detail_path r) of
                              Inl err \<Rightarrow> [Error (''[API Error] '' @ detail_path r)
                                            (if err = [] then ''Unknown Error'' else err)]
                            | Inr d \<Rightarrow> []) (arrival_order a refs))"
  by (simp add: detail_logs_def fold_request_interceptor fold_log_response)

lemma detail_logs_warnings:
  "filter is_Warn (detail_logs a refs lg) = filter is_Warn lg"
proof -
  have "filter is_Warn (concat (map (\<lambda>r. case get_pokemon a (detail_path r) of
                              Inl err \<Rightarrow> [Error (''[API Error] '' @ detail_path r)
                                            (if err = [] then ''Unknown Error'' else err)]
                            | Inr d \<Rightarrow> []) rs)) = []" for rs
    by (induction rs) (simp_all split: sum.split)
  then show ?thesis
    by (simp add: detail_logs_eq filter_map o_def)
qed

lemma detail_logs_requests:
  "filter is_Info (detail_logs a refs lg) =
     filter is_Info lg @ map (\<lambda>r. Info (''[API Request] GET '' @ detail_path r)) refs"
proof -
  have "filter is_Info (concat (map (\<lambda>r. case get_pokemon a (detail_path r) of
                              Inl err \<Rightarrow> [Error (''[API Error] '' @ detail_path r)
                                            (if err = [] then ''Unknown Error'' else err)]
                            | Inr d \<Rightarrow> []) rs)) = []" for rs
    by (induction rs) (simp_all split: sum.split)
  moreover have "filter is_Info (map (\<lambda>r. Info (''[API Request] GET '' @ detail_path r)) refs) =
      map (\<lambda>r. Info (''[API Request] GET '' @ detail_path r)) refs"
    by (induction refs) simp_all
  ultimately show ?thesis
    by (simp add: detail_logs_eq)
qed

lemma detail_logs_all_fulfilled:
  assumes "\<forall>r \<in> set refs. \<not> isl (get_pokemon a (detail_path r))"
  shows "detail_logs a refs lg = lg @ map (\<lambda>r. Info (''[API Request] GET '' @ detail_path r)) refs"
proof -
  have "concat (map (\<lambda>r. case get_pokemon a (detail_path r) of
                              Inl err \<Rightarrow> [Error (''[API Error] '' @ detail_path r)
                                            (if err = [] then ''Unknown Error'' else err)]
                            | Inr d \<Rightarrow> []) (arrival_order a refs)) = []"
    using assms by (auto simp add: arrival_order_def split: sum.split)
  then show ?thesis
    by (simp add: detail_logs_eq)
qed

subsection \<open>Adapter and pages\<close>

lemma stat_or_zero_find:
  "stat_or_zero nm sts =
     (case List.find (\<lambda>s. stat_name s = nm) sts of None \<Rightarrow> 0 | Some s \<Rightarrow> base_stat s)"
  by (simp add: stat_or_zero_def truthy_num_def split: option.split)

lemma fulfilled_adapted:
  "fulfilled_values (map (detail_promise a) refs) = adapted_successes a refs"
  by (induction refs)
    (simp_all add: adapted_successes_def detail_promise_def map_filter_simps split: sum.split)

lemma adapted_count:
  "length (adapted_successes a refs) + failed_lookups a refs = length refs"
  by (induction refs)
    (simp_all add: adapted_successes_def failed_lookups_def map_filter_simps split: sum.split)

lemma page_ref_paths:
  "detail_path \<lparr> ref_name = ''bulbasaur'', url = ''.../1/'' \<rparr> = ''/pokemon/1''"
  "detail_path \<lparr> ref_name = ''missingno'', url = ''.../9999/'' \<rparr> = ''/pokemon/9999''"
  "detail_path \<lparr> ref_name = ''ivysaur'', url = ''.../2/'' \<rparr> = ''/pokemon/2''"
  by (simp_all add: detail_path_def url_id_segment_def truthy_str_def)

lemma index_paths:
  "detail_path \<lparr> ref_name = nm, url = ''https://pokeapi.co/api/v2/pokemon/25/'' \<rparr> = ''/pokemon/25''"
  "detail_path \<lparr> ref_name = nm, url = ''https://pokeapi.co/api/v2/pokemon/16/'' \<rparr> = ''/pokemon/16''"
  by (simp_all add: detail_path_def url_id_segment_def truthy_str_def)

lemma getPokemonList_log:
  assumes "get_list a (list_path limit offset) = Inr refs"
  shows "snd (getPokemonList a limit offset lg) =
           detail_logs a refs (lg @ [Info (''[API Request] GET '' @ list_path limit offset)])
           @ (if failed_lookups a refs > 0
              then [Warn (failed_warning (int (failed_lookups a refs)))] else [])"
proof -
  have "int (length refs) - int (length (adapted_successes a refs)) = int (failed_lookups a refs)"
    using adapted_count [of a refs] by simp
  with assms show ?thesis
    by (simp add: getPokemonList_def Let_def fulfilled_adapted request_interceptor_def
        log_info_eq log_warn_eq)
qed

lemma first_rejection_None:
  "(first_rejection rs = None) = (\<forall>r \<in> set rs. \<forall>err. r \<noteq> Rejected err)"
  by (induction rs rule: first_rejection.induct) auto

lemma promise_all_fulfilled:
  assumes "\<forall>r \<in> set refs. \<not> isl (get_pokemon a (detail_path r))"
  shows "promise_all (map (\<lambda>lite. (arrival a (detail_path lite), detail_promise a lite)) refs) =
           Inr (adapted_successes a refs)"
proof -
  let ?ps = "map (\<lambda>lite. (arrival a (detail_path lite), detail_promise a lite)) refs"
  have ok: "\<forall>r \<in> set refs. \<forall>err. detail_promise a r \<noteq> Rejected err"
    using assms by (auto simp add: detail_promise_def split: sum.splits)
  have "first_rejection (map snd (sort_key fst ?ps)) = None"
    unfolding first_rejection_None using ok by auto
  moreover have "fulfilled_values (map snd ?ps) = adapted_successes a refs"
    using fulfilled_adapted [of a refs] by (simp add: o_def)
  ultimately show ?thesis
    by (simp only: promise_all_def option.case)
qed

text \<open>Two lookups fail; the query is rejected with the failure that comes back first.\<close>

lemma promise_all_first_in_time:
  "promise_all (map (\<lambda>lite. (arrival api_two_failures (detail_path lite), detail_promise api_two_failures lite))
                 page_refs) = Inl ''timeout of 10000ms exceeded''"
  by (simp add: promise_all_def page_refs_def page_ref_paths detail_promise_def
      api_two_failures_def api_partial_def)

subsection \<open>Letters and white space\<close>

lemma of_char_lower_char:
  "(of_char (lower_char c) :: nat) = (if is_capital c then of_char c + 32 else of_char c)"
proof -
  have "(of_char c :: nat) < 256" by simp
  then show ?thesis
    by (auto simp add: lower_char_def is_capital_def Let_def)
qed

lemma lower_char_same_letter: "(lower_char c = lower_char d) = same_letter c d"
proof -
  have "(lower_char c = lower_char d) = ((of_char (lower_char c) :: nat) = of_char (lower_char d))"
    by simp
  also have "\<dots> = same_letter c d"
    unfolding of_char_lower_char same_letter_def
    by (auto simp add: is_capital_def)
  finally show ?thesis .
qed

lemma same_letter_sym: "same_letter c d = same_letter d c"
  by (auto simp add: same_letter_def)

lemma startsWith_ci: "startsWith (toLowerCase nm) (toLowerCase q) = ci_starts_with nm q"
proof (induction nm arbitrary: q)
  case Nil
  then show ?case by (cases q) (simp_all add: toLowerCase_def ci_starts_with_def)
next
  case (Cons c cs)
  show ?case
  proof (cases q)
    case Nil
    then show ?thesis by (simp add: toLowerCase_def ci_starts_with_def)
  next
    case (Cons d ds)
    with Cons.IH [of ds] show ?thesis
      by (auto simp add: toLowerCase_def ci_starts_with_def lower_char_same_letter
          same_letter_sym [of c d])
  qed
qed

lemma dropWhile_hd: "xs \<noteq> [] \<Longrightarrow> \<not> P (hd xs) \<Longrightarrow> dropWhile P xs = xs"
  by (cases xs) simp_all

lemma trim_core:
  assumes a: "\<forall>c \<in> set a. is_space c" and b: "\<forall>c \<in> set b. is_space c"
    and t: "t = [] \<or> (\<not> is_space (hd t) \<and> \<not> is_space (last t))"
  shows "trim (a @ t @ b) = t"
proof (cases "t = []")
  case True
  with a b show ?thesis
    by (auto simp add: trim_def dest: set_dropWhileD)
next
  case False
  with t have h: "\<not> is_space (hd t)" and l: "\<not> is_space (last t)" by auto
  have "dropWhile is_space (a @ t @ b) = dropWhile is_space (t @ b)"
    by (rule dropWhile_append2) (use a in auto)
  also from False h have "\<dots> = t @ b" by (simp add: dropWhile_hd)
  finally have 1: "dropWhile is_space (a @ t @ b) = t @ b" .
  have "dropWhile is_space (rev b @ rev t) = dropWhile is_space (rev t)"
    by (rule dropWhile_append2) (use b in auto)
  also from False l have "\<dots> = rev t" by (simp add: dropWhile_hd hd_rev)
  finally show ?thesis using 1 by (simp add: trim_def)
qed

lemma trim_unchanged:
  assumes "n = [] \<or> (\<not> is_space (hd n) \<and> \<not> is_space (last n))"
  shows "trim n = n"
  using trim_core [of "[]" "[]" n] assms by simp

lemma trim_note_leading_space: "trim note_leading_space = replicate 249 (CHR ''a'')"
  by (simp add: trim_def note_leading_space_def is_space_def dropWhile_replicate)

lemma trim_note_padded: "trim note_padded = ''Found near the river''"
  by (simp add: trim_def note_padded_def is_space_def)

subsection \<open>Store operations\<close>

text \<open>The outcome of the image conversion does not depend on the state it starts from, and
  the conversion touches neither the table nor the membership set.\<close>

lemma convert_fst_indep:
  "fst (convertImageUrlToBase64 e u w) = fst (convertImageUrlToBase64 e u w')"
  by (simp add: convertImageUrlToBase64_def Let_def split: sum.split)

lemma convert_keeps:
  "tbl (snd (convertImageUrlToBase64 e u w)) = tbl w"
  "caughtIds (snd (convertImageUrlToBase64 e u w)) = caughtIds w"
  by (simp_all add: convertImageUrlToBase64_def Let_def logger_error_eq split: sum.split)

lemma convert_absorbed:
  "embed_absorbs_failure e u \<Longrightarrow> fst (convertImageUrlToBase64 e u w) = Inr u"
  by (auto simp add: embed_absorbs_failure_def convertImageUrlToBase64_def Let_def split: sum.splits)

text \<open>When \<open>fetch\<close> or \<open>response.blob()\<close> fails, the conversion logs the error and returns
  the URL it was given.\<close>

lemma convert_fetch_failure:
  "fetch e u = Inl err \<or> fetch e u = Inr (Inl err) \<Longrightarrow>
   convertImageUrlToBase64 e u w =
     (Inr u, w\<lparr>io := io w @ [Fetch u],
              logged := logged w @ [Error ''Failed to convert image to offline format'' err]\<rparr>)"
  by (auto simp add: convertImageUrlToBase64_def Let_def logger_error_eq)

text \<open>Offline at the first capture: the conversion answers with the remote URL, the
  capture goes on and the record is stored with that URL.\<close>

lemma catchPokemon_offline:
  "caughtIds (catchPokemon env_offline mockPokemon empty_world) = {25} \<and>
   tbl (catchPokemon env_offline mockPokemon empty_world) 25 =
     Some (caught_record mockPokemon ''https://pikachu.com/image.png'' 1704067200000) \<and>
   logged (catchPokemon env_offline mockPokemon empty_world) =
     [Error ''Failed to convert image to offline format'' ''Network Error'']"
  by (simp add: catchPokemon_def convertImageUrlToBase64_def db_add_def db_add_error_def
      logger_error_eq caught_record_def env_offline_def env_ok_def mockPokemon_def
      empty_world_def Let_def)

lemma fold_delete: "fold (\<lambda>i s. s - {i}) ids S = S - set ids"
  by (induction ids arbitrary: S) auto

lemma updatePokemonNote_io:
  "io (updatePokemonNote e k n w) = io w @ [DbUpdate k (take MAX_NOTE_LENGTH (trim n))]"
  by (simp add: updatePokemonNote_def Let_def db_update_def logger_warn_eq logger_error_eq
      split: option.split)

lemma updatePokemonNote_tbl:
  "db_fault e = None \<Longrightarrow> tbl w k = Some r \<Longrightarrow>
   tbl (updatePokemonNote e k n w) k = Some (r\<lparr>note_txt := Some (take MAX_NOTE_LENGTH (trim n))\<rparr>)"
  by (simp add: updatePokemonNote_def Let_def db_update_def logger_warn_eq)

lemma updatePokemonNote_tbl_unchanged:
  "db_fault e \<noteq> None \<or> tbl w k = None \<Longrightarrow> tbl (updatePokemonNote e k n w) = tbl w"
  by (auto simp add: updatePokemonNote_def Let_def db_update_def logger_warn_eq logger_error_eq
      split: option.splits)

lemma updatePokemonNote_logged:
  "logged (updatePokemonNote e k n w) =
     logged w
     @ (if length (trim n) > MAX_NOTE_LENGTH
        then [Warn (''Note truncated for Pokemon ID '' @ num_str k @ ''.'')] else [])
     @ (case db_fault e of None \<Rightarrow> [] | Some err \<Rightarrow> [Error ''DB Update Failed (Note)'' err])"
  by (simp add: updatePokemonNote_def Let_def db_update_def logger_warn_eq logger_error_eq
      split: option.split)

section \<open>Collection cache: rollback, duplicates, round trip\<close>

text \<open>
  Claim C1, amended. For a capture of a candidate whose identifier is not in the
  membership set: if the durable insert fails (the store fails, or the key is present in
  the table), then after the capture the membership set is the set it was before the
  capture. A failure of the image-embedding step that the adapter absorbs (the request or
  the blob fails: it is logged and the remote URL is returned) does not roll back: the
  insert is made with the remote URL and, when it succeeds, the identifier stays in the
  membership set.
\<close>

theorem catchPokemon_rollback:
  assumes "idn p \<notin> caughtIds w"
  shows "(\<not> isl (fst (convertImageUrlToBase64 e (imageUrl p) w)) \<and>
          db_add_error e (idn p) (tbl w) \<noteq> None \<longrightarrow>
            caughtIds (catchPokemon e p w) = caughtIds w) \<and>
         (embed_absorbs_failure e (imageUrl p) \<and> db_add_error e (idn p) (tbl w) = None \<longrightarrow>
            caughtIds (catchPokemon e p w) = insert (idn p) (caughtIds w) \<and>
            tbl (catchPokemon e p w) (idn p) = Some (caught_record p (imageUrl p) (now e)))"
proof -
  let ?w1 = "w\<lparr>caughtIds := insert (idn p) (caughtIds w)\<rparr>"
  obtain r w2 where c: "convertImageUrlToBase64 e (imageUrl p) ?w1 = (r, w2)"
    by (cases "convertImageUrlToBase64 e (imageUrl p) ?w1")
  have r: "fst (convertImageUrlToBase64 e (imageUrl p) w) = r"
    using c convert_fst_indep [of e "imageUrl p" ?w1 w] by simp
  have t: "tbl w2 = tbl w" and s: "caughtIds w2 = insert (idn p) (caughtIds w)"
    using c convert_keeps [of e "imageUrl p" ?w1] by simp_all
  have 1: "caughtIds (catchPokemon e p w) = caughtIds w"
    if "\<not> isl r" and "db_add_error e (idn p) (tbl w) \<noteq> None"
  proof -
    from that(1) obtain img where img: "r = Inr img" by (cases r) simp_all
    from that(2) obtain err where "db_add_error e (idn p) (tbl w2) = Some err" using t by auto
    with c img assms show ?thesis
      by (simp add: catchPokemon_def Let_def logger_error_eq db_add_def caught_record_def)
  qed
  have 2: "caughtIds (catchPokemon e p w) = insert (idn p) (caughtIds w) \<and>
           tbl (catchPokemon e p w) (idn p) = Some (caught_record p (imageUrl p) (now e))"
    if "embed_absorbs_failure e (imageUrl p)" and "db_add_error e (idn p) (tbl w) = None"
  proof -
    from that(1) r have img: "r = Inr (imageUrl p)"
      using convert_absorbed [of e "imageUrl p" w] by simp
    from c img assms that(2) t s show ?thesis
      by (simp add: catchPokemon_def Let_def db_add_def caught_record_def)
  qed
  from 1 2 r show ?thesis by simp
qed

text \<open>The store is full: the set is empty again. The network is down and the store
  works: the identifier stays and the record carries the remote URL.\<close>

theorem catchPokemon_rollback_witness:
  "caughtIds (catchPokemon env_disk_full mockPokemon empty_world) = {} \<and>
   caughtIds (catchPokemon env_offline mockPokemon empty_world) = {25} \<and>
   tbl (catchPokemon env_offline mockPokemon empty_world) 25 =
     Some (caught_record mockPokemon ''https://pikachu.com/image.png'' 1704067200000)"
proof -
  have a: "idn mockPokemon \<notin> caughtIds empty_world"
    by (simp add: mockPokemon_def empty_world_def)
  have b: "\<not> isl (fst (convertImageUrlToBase64 env_disk_full (imageUrl mockPokemon) empty_world))"
    by (simp add: convertImageUrlToBase64_def env_disk_full_def env_ok_def)
  have c: "db_add_error env_disk_full (idn mockPokemon) (tbl empty_world) \<noteq> None"
    by (simp add: db_add_error_def env_disk_full_def env_ok_def)
  have d: "embed_absorbs_failure env_offline (imageUrl mockPokemon)"
    by (simp add: embed_absorbs_failure_def env_offline_def env_ok_def)
  have f: "db_add_error env_offline (idn mockPokemon) (tbl empty_world) = None"
    by (simp add: db_add_error_def env_offline_def env_ok_def empty_world_def)
  from catchPokemon_rollback [OF a, of env_disk_full] catchPokemon_rollback [OF a, of env_offline]
    b c d f
  show ?thesis
    by (simp add: empty_world_def mockPokemon_def env_offline_def env_ok_def)
qed

text \<open>The image request fails, which is a failure of the image-embedding step, and the
  membership set after the capture is not the set before it.\<close>

theorem catchPokemon_rollback_counterexample:
  "idn mockPokemon \<notin> caughtIds empty_world \<and>
   embed_step_fails env_offline (imageUrl mockPokemon) \<and>
   caughtIds (catchPokemon env_offline mockPokemon empty_world) \<noteq> caughtIds empty_world"
  by (simp add: catchPokemon_def convertImageUrlToBase64_def db_add_def db_add_error_def
      logger_error_eq caught_record_def embed_step_fails_def env_offline_def env_ok_def
      mockPokemon_def empty_world_def Let_def)

text \<open>
  Claim C2. For a candidate whose identifier is in the membership set, the capture makes
  no call at all (no image request, no write to the store), leaves the table and the
  membership set as they are, and adds one warning to the log and no error.
\<close>

theorem catchPokemon_duplicate:
  assumes "idn p \<in> caughtIds w"
  shows "io (catchPokemon e p w) = io w \<and>
         tbl (catchPokemon e p w) = tbl w \<and>
         caughtIds (catchPokemon e p w) = caughtIds w \<and>
         logged (catchPokemon e p w) =
           logged w @ [Warn (''Duplicate capture attempt blocked: '' @ name p @ '' ('' @ num_str (idn p) @ '')'')]"
  using assms by (simp add: catchPokemon_def logger_warn_eq)

theorem catchPokemon_duplicate_witness:
  "io (catchPokemon env_ok mockPokemon (empty_world\<lparr>caughtIds := {25}\<rparr>)) = [] \<and>
   caughtIds (catchPokemon env_ok mockPokemon (empty_world\<lparr>caughtIds := {25}\<rparr>)) = {25} \<and>
   logged (catchPokemon env_ok mockPokemon (empty_world\<lparr>caughtIds := {25}\<rparr>)) =
     [Warn ''Duplicate capture attempt blocked: pikachu (25)'']"
proof -
  have a: "idn mockPokemon \<in> caughtIds (empty_world\<lparr>caughtIds := {25}\<rparr>)"
    by (simp add: mockPokemon_def)
  from catchPokemon_duplicate [OF a, of env_ok] num_str_small show ?thesis
    by (simp add: empty_world_def mockPokemon_def)
qed

section \<open>Detail resolver: precedence\<close>

text \<open>
  Claim C3. For every remote result, local record and shared-view marker (the marker is
  present when \<open>isSharedView\<close> holds, that is, when the \<open>caughtAt\<close> parameter has a
  non-empty value): with the marker the fused value is the remote entity, whether a local
  record exists or not; without the marker and with a local record it is the local
  record; otherwise it is the remote entity.
\<close>

theorem pokemon_precedence:
  "(isSharedView st \<longrightarrow> pokemon st = map_option Remote (apiPokemon st)) \<and>
   (\<not> isSharedView st \<longrightarrow> (\<forall>l. localPokemon st = Some l \<longrightarrow> pokemon st = Some (Owned l))) \<and>
   (\<not> isSharedView st \<and> localPokemon st = None \<longrightarrow> pokemon st = map_option Remote (apiPokemon st))"
  by (simp add: pokemon_def)

text \<open>Identifier 25 with a local record: the owner sees the local record, a shared link
  the remote entity, and without the local record the remote entity is shown.\<close>

theorem pokemon_precedence_witness:
  "pokemon owner_view = Some (Owned pikachu_local) \<and>
   pokemon shared_view = Some (Remote pikachu_api) \<and>
   pokemon discovery_view = Some (Remote pikachu_api)"
  using pokemon_precedence [of owner_view] pokemon_precedence [of shared_view]
    pokemon_precedence [of discovery_view]
  by (simp add: owner_view_def shared_view_def discovery_view_def isSharedView_def truthy_str_def)

section \<open>Resilient list fetcher\<close>

text \<open>
  Claim C4, amended. For a fetched page of \<open>N\<close> references of which \<open>K\<close> detail lookups
  fail, \<open>getPokemonList\<close> returns a page and no error, the page holds the \<open>N - K\<close>
  entities adapted from the lookups that succeeded, in the order of the page, and it logs
  one warning carrying \<open>K\<close> when \<open>K > 0\<close> and no warning when \<open>K = 0\<close>. Beside the
  warning the log gains what the interceptors write: every request, and every failed
  lookup as its answer comes back.
\<close>

theorem getPokemonList_partial:
  assumes "get_list a (list_path limit offset) = Inr refs"
  shows "fst (getPokemonList a limit offset lg) = Inr (adapted_successes a refs) \<and>
         length (adapted_successes a refs) + failed_lookups a refs = length refs \<and>
         filter is_Warn (snd (getPokemonList a limit offset lg)) =
           filter is_Warn lg
           @ (if failed_lookups a refs > 0
              then [Warn (''Recovered from '' @ num_str (int (failed_lookups a refs)) @ '' failed Pok''
                          @ [CHR 0xE9] @ ''mon requests. Partial data returned.'')]
              else []) \<and>
         snd (getPokemonList a limit offset lg) =
           lg @ [Info (''[API Request] GET '' @ list_path limit offset)]
           @ map (\<lambda>r. Info (''[API Request] GET '' @ detail_path r)) refs
           @ concat (map (\<lambda>r. case get_pokemon a (detail_path r) of
                                 Inl err \<Rightarrow> [Error (''[API Error] '' @ detail_path r)
                                               (if err = [] then ''Unknown Error'' else err)]
                               | Inr d \<Rightarrow> []) (arrival_order a refs))
           @ (if failed_lookups a refs > 0
              then [Warn (''Recovered from '' @ num_str (int (failed_lookups a refs)) @ '' failed Pok''
                          @ [CHR 0xE9] @ ''mon requests. Partial data returned.'')]
              else [])"
proof -
  have r: "fst (getPokemonList a limit offset lg) = Inr (adapted_successes a refs)"
    using assms by (simp add: getPokemonList_def Let_def fulfilled_adapted)
  note l = getPokemonList_log [OF assms, of lg]
  have w: "filter is_Warn (snd (getPokemonList a limit offset lg)) =
           filter is_Warn lg
           @ (if failed_lookups a refs > 0
              then [Warn (failed_warning (int (failed_lookups a refs)))] else [])"
    by (simp add: l detail_logs_warnings)
  from r w l show ?thesis
    by (simp add: adapted_count failed_warning_def detail_logs_eq)
qed

text \<open>Three references. The second lookup fails: the first and the third entity are
  returned and the warning counts one failure. The third fails as well: the first entity
  is returned and the warning counts two.\<close>

theorem getPokemonList_partial_witness:
  "getPokemonList api_partial 20 0 [] =
     (Inr [adaptPokemon (minimal_payload 1 ''bulbasaur''), adaptPokemon (minimal_payload 2 ''ivysaur'')],
      [Info ''[API Request] GET /pokemon?limit=20&offset=0'',
       Info ''[API Request] GET /pokemon/1'',
       Info ''[API Request] GET /pokemon/9999'',
       Info ''[API Request] GET /pokemon/2'',
       Error ''[API Error] /pokemon/9999'' ''Network Error 500'',
       Warn (''Recovered from 1 failed Pok'' @ [CHR 0xE9] @ ''mon requests. Partial data returned.'')]) \<and>
   getPokemonList api_two_failures 20 0 [] =
     (Inr [adaptPokemon (minimal_payload 1 ''bulbasaur'')],
      [Info ''[API Request] GET /pokemon?limit=20&offset=0'',
       Info ''[API Request] GET /pokemon/1'',
       Info ''[API Request] GET /pokemon/9999'',
       Info ''[API Request] GET /pokemon/2'',
       Error ''[API Error] /pokemon/2'' ''timeout of 10000ms exceeded'',
       Error ''[API Error] /pokemon/9999'' ''Network Error 500'',
       Warn (''Recovered from 2 failed Pok'' @ [CHR 0xE9] @ ''mon requests. Partial data returned.'')])"
proof -
  have a1: "get_list api_partial (list_path 20 0) = Inr page_refs"
    by (simp add: api_partial_def list_path_20_0)
  have s1: "adapted_successes api_partial page_refs =
      [adaptPokemon (minimal_payload 1 ''bulbasaur''), adaptPokemon (minimal_payload 2 ''ivysaur'')]"
    by (simp add: adapted_successes_def map_filter_simps page_refs_def page_ref_paths api_partial_def)
  have k1: "failed_lookups api_partial page_refs = 1"
    by (simp add: failed_lookups_def page_refs_def page_ref_paths api_partial_def)
  have o1: "arrival_order api_partial page_refs =
      [\<lparr> ref_name = ''ivysaur'', url = ''.../2/'' \<rparr>, \<lparr> ref_name = ''bulbasaur'', url = ''.../1/'' \<rparr>,
       \<lparr> ref_name = ''missingno'', url = ''.../9999/'' \<rparr>]"
    by (simp add: arrival_order_def page_refs_def page_ref_paths api_partial_def)
  have a2: "get_list api_two_failures (list_path 20 0) = Inr page_refs"
    by (simp add: api_two_failures_def api_partial_def list_path_20_0)
  have s2: "adapted_successes api_two_failures page_refs = [adaptPokemon (minimal_payload 1 ''bulbasaur'')]"
    by (simp add: adapted_successes_def map_filter_simps page_refs_def page_ref_paths
        api_two_failures_def api_partial_def)
  have k2: "failed_lookups api_two_failures page_refs = 2"
    by (simp add: failed_lookups_def page_refs_def page_ref_paths api_two_failures_def api_partial_def)
  have o2: "arrival_order api_two_failures page_refs = arrival_order api_partial page_refs"
    by (simp add: arrival_order_def api_two_failures_def)
  have g1: "get_pokemon api_partial ''/pokemon/1'' = Inr (minimal_payload 1 ''bulbasaur'')"
    "get_pokemon api_partial ''/pokemon/2'' = Inr (minimal_payload 2 ''ivysaur'')"
    "get_pokemon api_partial ''/pokemon/9999'' = Inl ''Network Error 500''"
    by (simp_all add: api_partial_def)
  have g2: "get_pokemon api_two_failures ''/pokemon/1'' = Inr (minimal_payload 1 ''bulbasaur'')"
    "get_pokemon api_two_failures ''/pokemon/2'' = Inl ''timeout of 10000ms exceeded''"
    "get_pokemon api_two_failures ''/pokemon/9999'' = Inl ''Network Error 500''"
    by (simp_all add: api_two_failures_def)
  from getPokemonList_partial [OF a1, of "[]"] s1 k1 o1 g1
  have p1: "getPokemonList api_partial 20 0 [] =
     (Inr [adaptPokemon (minimal_payload 1 ''bulbasaur''), adaptPokemon (minimal_payload 2 ''ivysaur'')],
      [Info ''[API Request] GET /pokemon?limit=20&offset=0'',
       Info ''[API Request] GET /pokemon/1'',
       Info ''[API Request] GET /pokemon/9999'',
       Info ''[API Request] GET /pokemon/2'',
       Error ''[API Error] /pokemon/9999'' ''Network Error 500'',
       Warn (''Recovered from 1 failed Pok'' @ [CHR 0xE9] @ ''mon requests. Partial data returned.'')])"
    by (simp add: prod_eq_iff list_path_20_0 num_str_small page_refs_def page_ref_paths)
  from getPokemonList_partial [OF a2, of "[]"] s2 k2 o2 o1 g2
  have p2: "getPokemonList api_two_failures 20 0 [] =
     (Inr [adaptPokemon (minimal_payload 1 ''bulbasaur'')],
      [Info ''[API Request] GET /pokemon?limit=20&offset=0'',
       Info ''[API Request] GET /pokemon/1'',
       Info ''[API Request] GET /pokemon/9999'',
       Info ''[API Request] GET /pokemon/2'',
       Error ''[API Error] /pokemon/2'' ''timeout of 10000ms exceeded'',
       Error ''[API Error] /pokemon/9999'' ''Network Error 500'',
       Warn (''Recovered from 2 failed Pok'' @ [CHR 0xE9] @ ''mon requests. Partial data returned.'')])"
    by (simp add: prod_eq_iff list_path_20_0 num_str_small page_refs_def page_ref_paths)
  from p1 p2 show ?thesis by (rule conjI)
qed

text \<open>A page of one reference whose lookup succeeds, \<open>K = 0\<close>: the log holds the two
  requests and no warning carrying the count 0.\<close>

theorem getPokemonList_counterexample:
  "get_list api_healthy (list_path 20 0) = Inr [hd page_refs] \<and>
   failed_lookups api_healthy [hd page_refs] = 0 \<and>
   snd (getPokemonList api_healthy 20 0 []) =
     [Info ''[API Request] GET /pokemon?limit=20&offset=0'', Info ''[API Request] GET /pokemon/1''] \<and>
   Warn (''Recovered from 0 failed Pok'' @ [CHR 0xE9] @ ''mon requests. Partial data returned.'')
     \<notin> set (snd (getPokemonList api_healthy 20 0 []))"
proof -
  have a: "get_list api_healthy (list_path 20 0) = Inr [hd page_refs]"
    by (simp add: api_healthy_def)
  have h: "hd page_refs = \<lparr> ref_name = ''bulbasaur'', url = ''.../1/'' \<rparr>"
    by (simp add: page_refs_def)
  have g: "get_pokemon api_healthy ''/pokemon/1'' = Inr (minimal_payload 1 ''bulbasaur'')"
    by (simp add: api_healthy_def api_partial_def)
  have k: "failed_lookups api_healthy [hd page_refs] = 0"
    unfolding h failed_lookups_def by (simp add: page_ref_paths g)
  have "snd (getPokemonList api_healthy 20 0 []) =
     [Info ''[API Request] GET /pokemon?limit=20&offset=0'', Info ''[API Request] GET /pokemon/1'']"
    by (simp add: getPokemonList_log [OF a] k [unfolded h] detail_logs_eq arrival_order_def h
        page_ref_paths g list_path_20_0)
  with a k show ?thesis by simp
qed

section \<open>Collection cache: capture then release\<close>

text \<open>
  Claim C5. For an identifier that is not in the membership set, the capture of an entity
  with that identifier followed by the release of that identifier, the image step and the
  insert of the capture and the bulk delete of the release all succeeding, leaves the
  membership set as it was before the capture.
\<close>

theorem catch_release_roundtrip:
  assumes "idn p \<notin> caughtIds w"
    and "\<not> isl (fst (convertImageUrlToBase64 e1 (imageUrl p) w))"
    and "db_add_error e1 (idn p) (tbl w) = None"
    and "db_fault e2 = None"
  shows "caughtIds (releasePokemon e2 [idn p] (catchPokemon e1 p w)) = caughtIds w"
proof -
  let ?w1 = "w\<lparr>caughtIds := insert (idn p) (caughtIds w)\<rparr>"
  obtain r w2 where c: "convertImageUrlToBase64 e1 (imageUrl p) ?w1 = (r, w2)"
    by (cases "convertImageUrlToBase64 e1 (imageUrl p) ?w1")
  have r: "fst (convertImageUrlToBase64 e1 (imageUrl p) w) = r"
    using c convert_fst_indep [of e1 "imageUrl p" ?w1 w] by simp
  have t: "tbl w2 = tbl w" and s: "caughtIds w2 = insert (idn p) (caughtIds w)"
    using c convert_keeps [of e1 "imageUrl p" ?w1] by simp_all
  from r assms(2) have "\<not> isl r" by simp
  then obtain img where img: "r = Inr img" by (cases r) simp_all
  have "caughtIds (catchPokemon e1 p w) = insert (idn p) (caughtIds w)"
    using c img assms(1,3) t s
    by (simp add: catchPokemon_def Let_def db_add_def caught_record_def)
  then show ?thesis
    using assms(1,4) by (simp add: releasePokemon_def Let_def db_bulkDelete_def)
qed

theorem catch_release_roundtrip_witness:
  "caughtIds (releasePokemon env_ok [25] (catchPokemon env_ok mockPokemon (empty_world\<lparr>caughtIds := {1}\<rparr>))) = {1}"
proof -
  let ?w = "empty_world\<lparr>caughtIds := {1}\<rparr>"
  have a: "idn mockPokemon \<notin> caughtIds ?w" by (simp add: mockPokemon_def)
  have b: "\<not> isl (fst (convertImageUrlToBase64 env_ok (imageUrl mockPokemon) ?w))"
    by (simp add: convertImageUrlToBase64_def env_ok_def)
  have c: "db_add_error env_ok (idn mockPokemon) (tbl ?w) = None"
    by (simp add: db_add_error_def env_ok_def empty_world_def)
  have d: "db_fault env_ok = None" by (simp add: env_ok_def)
  from catch_release_roundtrip [OF a b c d] show ?thesis by (simp add: mockPokemon_def)
qed

section \<open>Search index\<close>

text \<open>
  Claim C6. For every name index held for the session and every query of at least two
  characters, the filter returns the entries whose name starts with the query
  case-insensitively, in the order of the index, and the hydration requests the first
  \<open>20 * page\<close> of them, one request each in that order (all of them adapted, in that
  order, when every lookup succeeds); the query \<open>pi\<close> over pikachu, pidgey, bulbasaur
  gives pikachu, pidgey.
\<close>

theorem search_filter_hydration:
  assumes "2 \<le> length q"
  shows "filtered_names idx q = filter (\<lambda>p. ci_starts_with (ref_name p) q) idx \<and>
         search_query a (Some idx) q page lg =
           Some (promise_all (map (\<lambda>r. (arrival a (detail_path r), detail_promise a r))
                                (take (20 * page) (filtered_names idx q))),
                 detail_logs a (take (20 * page) (filtered_names idx q)) lg) \<and>
         filter is_Info (detail_logs a (take (20 * page) (filtered_names idx q)) lg) =
           filter is_Info lg
           @ map (\<lambda>r. Info (''[API Request] GET '' @ detail_path r)) (take (20 * page) (filtered_names idx q)) \<and>
         ((\<forall>r \<in> set (take (20 * page) (filtered_names idx q)). \<not> isl (get_pokemon a (detail_path r))) \<longrightarrow>
            search_query a (Some idx) q page lg =
              Some (Inr (adapted_successes a (take (20 * page) (filtered_names idx q))),
                    lg @ map (\<lambda>r. Info (''[API Request] GET '' @ detail_path r))
                           (take (20 * page) (filtered_names idx q)))) \<and>
         map ref_name (filtered_names example_index ''pi'') = [''pikachu'', ''pidgey'']"
proof -
  have e: "map ref_name (filtered_names example_index ''pi'') = [''pikachu'', ''pidgey'']"
    by code_simp
  have f: "filtered_names idx q = filter (\<lambda>p. ci_starts_with (ref_name p) q) idx"
    by (simp add: filtered_names_def startsWith_ci)
  have s: "search_query a (Some idx) q page lg =
           Some (promise_all (map (\<lambda>r. (arrival a (detail_path r), detail_promise a r))
                                (take (20 * page) (filtered_names idx q))),
                 detail_logs a (take (20 * page) (filtered_names idx q)) lg)"
    using assms
    by (simp add: search_query_def search_queryFn_def isSearching_def itemsToShow_def Let_def)
  from e f s show ?thesis
    by (simp only: detail_logs_requests promise_all_fulfilled detail_logs_all_fulfilled simp_thms)
      (simp add: promise_all_fulfilled detail_logs_all_fulfilled)
qed

text \<open>The query \<open>Pi\<close> over names written with capitals finds Pikachu and PIDGEY, and
  their two details are requested.\<close>

theorem search_filter_hydration_witness:
  "2 \<le> length ''Pi'' \<and>
   map ref_name (filtered_names capital_index ''Pi'') = [''Pikachu'', ''PIDGEY''] \<and>
   search_query api_search (Some capital_index) ''Pi'' 1 [] =
     Some (Inr [adaptPokemon (minimal_payload 25 ''pikachu''), adaptPokemon (minimal_payload 16 ''pidgey'')],
           [Info ''[API Request] GET /pokemon/25'', Info ''[API Request] GET /pokemon/16''])"
proof -
  let ?pikachu = "\<lparr> ref_name = ''Pikachu'', url = ''https://pokeapi.co/api/v2/pokemon/25/'' \<rparr>"
  let ?pidgey = "\<lparr> ref_name = ''PIDGEY'', url = ''https://pokeapi.co/api/v2/pokemon/16/'' \<rparr>"
  have a: "2 \<le> length ''Pi''" by simp
  have f: "filter (\<lambda>p. ci_starts_with (ref_name p) ''Pi'') capital_index = [?pikachu, ?pidgey]"
    by code_simp
  note th = search_filter_hydration [OF a, of capital_index api_search 1 "[]"]
  from th f have fn: "filtered_names capital_index ''Pi'' = [?pikachu, ?pidgey]" by simp
  have ok: "\<forall>r \<in> set (take (20 * 1) (filtered_names capital_index ''Pi'')).
              \<not> isl (get_pokemon api_search (detail_path r))"
    by (simp add: fn index_paths api_search_def)
  with th have "search_query api_search (Some capital_index) ''Pi'' 1 [] =
      Some (Inr (adapted_successes api_search (take (20 * 1) (filtered_names capital_index ''Pi''))),
            [] @ map (\<lambda>r. Info (''[API Request] GET '' @ detail_path r))
                   (take (20 * 1) (filtered_names capital_index ''Pi'')))"
    by blast
  then show ?thesis
    by (simp add: fn index_paths adapted_successes_def map_filter_simps api_search_def)
qed

section \<open>Annotation update\<close>

text \<open>
  Claim C7, amended. For every identifier and annotation text, \<open>updatePokemonNote\<close>
  persists the text trimmed of white space at both ends and cut to at most 200
  characters whenever the store accepts the update of an existing record (a failure of
  the store, like an identifier without a record, leaves the table as it is); the one
  update it makes carries that text, and a warning is logged, nothing rejected, when the
  trimmed text is longer than 200 characters. An input of 250 characters that neither
  starts nor ends with white space then persists exactly its first 200 characters.
\<close>

theorem updatePokemonNote_trim_truncate:
  "(db_fault e = None \<longrightarrow>
      (\<forall>r. tbl w k = Some r \<longrightarrow>
         tbl (updatePokemonNote e k n w) k = Some (r\<lparr>note_txt := Some (take 200 (trim n))\<rparr>))) \<and>
   (db_fault e \<noteq> None \<or> tbl w k = None \<longrightarrow> tbl (updatePokemonNote e k n w) = tbl w) \<and>
   io (updatePokemonNote e k n w) = io w @ [DbUpdate k (take 200 (trim n))] \<and>
   length (take 200 (trim n)) \<le> 200 \<and>
   ((\<forall>c \<in> set a. is_space c) \<and> (\<forall>c \<in> set b. is_space c) \<and>
    (t = [] \<or> (\<not> is_space (hd t) \<and> \<not> is_space (last t))) \<longrightarrow> trim (a @ t @ b) = t) \<and>
   logged (updatePokemonNote e k n w) =
     logged w
     @ (if length (trim n) > 200
        then [Warn (''Note truncated for Pokemon ID '' @ num_str k @ ''.'')] else [])
     @ (case db_fault e of None \<Rightarrow> [] | Some err \<Rightarrow> [Error ''DB Update Failed (Note)'' err]) \<and>
   (length n = 250 \<and> \<not> is_space (hd n) \<and> \<not> is_space (last n) \<and> db_fault e = None \<longrightarrow>
      (\<forall>r. tbl w k = Some r \<longrightarrow>
         tbl (updatePokemonNote e k n w) k = Some (r\<lparr>note_txt := Some (take 200 n)\<rparr>)))"
  using updatePokemonNote_io [of e k n w] updatePokemonNote_logged [of e k n w]
    updatePokemonNote_tbl [of e w k _ n] updatePokemonNote_tbl_unchanged [of e w k n]
    trim_unchanged [of n] trim_core [of a b t]
  by (auto simp add: MAX_NOTE_LENGTH_def)

text \<open>250 letters: the record carries the first 200 and a warning is logged. A note
  between a tab, spaces, a line feed and a no-break space: the record carries the note
  alone and nothing is logged. With a full store the table stays as it is.\<close>

theorem updatePokemonNote_trim_truncate_witness:
  "tbl (updatePokemonNote env_ok 25 (replicate 250 (CHR ''a'')) world_with_pikachu) 25 =
     Some (pikachu_local\<lparr>note_txt := Some (replicate 200 (CHR ''a''))\<rparr>) \<and>
   logged (updatePokemonNote env_ok 25 (replicate 250 (CHR ''a'')) world_with_pikachu) =
     [Warn ''Note truncated for Pokemon ID 25.''] \<and>
   tbl (updatePokemonNote env_ok 25 note_padded world_with_pikachu) 25 =
     Some (pikachu_local\<lparr>note_txt := Some ''Found near the river''\<rparr>) \<and>
   logged (updatePokemonNote env_ok 25 note_padded world_with_pikachu) = [] \<and>
   tbl (updatePokemonNote env_disk_full 25 note_padded world_with_pikachu) = tbl world_with_pikachu"
proof -
  let ?n = "replicate 250 (CHR ''a'')"
  let ?a = "[CHR 0x09, CHR '' '']"
  let ?b = "[CHR '' '', CHR 0x0A, CHR 0xA0]"
  let ?t = "''Found near the river''"
  have f: "db_fault env_ok = None" "db_fault env_disk_full \<noteq> None"
    by (simp_all add: env_ok_def env_disk_full_def)
  have r: "tbl world_with_pikachu 25 = Some pikachu_local"
    by (simp add: world_with_pikachu_def)
  have l: "logged world_with_pikachu = []"
    by (simp add: world_with_pikachu_def empty_world_def)
  have n: "length ?n = 250" "\<not> is_space (hd ?n)" "\<not> is_space (last ?n)"
    by (simp_all add: is_space_def)
  have p: "\<forall>c \<in> set ?a. is_space c" "\<forall>c \<in> set ?b. is_space c"
    "\<not> is_space (hd ?t)" "\<not> is_space (last ?t)" "note_padded = ?a @ ?t @ ?b"
    by (simp_all add: is_space_def note_padded_def)
  note th1 = updatePokemonNote_trim_truncate [of env_ok world_with_pikachu 25 ?n "[]" "[]" ?n]
  note th2 = updatePokemonNote_trim_truncate [of env_ok world_with_pikachu 25 note_padded ?a ?b ?t]
  note th3 = updatePokemonNote_trim_truncate [of env_disk_full world_with_pikachu 25 note_padded ?a ?b ?t]
  from th1 n have t1: "trim ?n = ?n" by simp
  from th2 p have t2: "trim note_padded = ?t" by simp
  from th1 f r n have "tbl (updatePokemonNote env_ok 25 ?n world_with_pikachu) 25 =
      Some (pikachu_local\<lparr>note_txt := Some (take 200 ?n)\<rparr>)" by blast
  then have 1: "tbl (updatePokemonNote env_ok 25 ?n world_with_pikachu) 25 =
      Some (pikachu_local\<lparr>note_txt := Some (replicate 200 (CHR ''a''))\<rparr>)" by simp
  from th1 have "logged (updatePokemonNote env_ok 25 ?n world_with_pikachu) =
      logged world_with_pikachu
      @ (if length (trim ?n) > 200
         then [Warn (''Note truncated for Pokemon ID '' @ num_str 25 @ ''.'')] else [])
      @ (case db_fault env_ok of None \<Rightarrow> [] | Some err \<Rightarrow> [Error ''DB Update Failed (Note)'' err])"
    by blast
  then have 2: "logged (updatePokemonNote env_ok 25 ?n world_with_pikachu) =
      [Warn ''Note truncated for Pokemon ID 25.'']"
    by (simp add: t1 f l num_str_small)
  from th2 f r have "tbl (updatePokemonNote env_ok 25 note_padded world_with_pikachu) 25 =
      Some (pikachu_local\<lparr>note_txt := Some (take 200 (trim note_padded))\<rparr>)" by blast
  then have 3: "tbl (updatePokemonNote env_ok 25 note_padded world_with_pikachu) 25 =
      Some (pikachu_local\<lparr>note_txt := Some ?t\<rparr>)" by (simp add: t2)
  from th2 have "logged (updatePokemonNote env_ok 25 note_padded world_with_pikachu) =
      logged world_with_pikachu
      @ (if length (trim note_padded) > 200
         then [Warn (''Note truncated for Pokemon ID '' @ num_str 25 @ ''.'')] else [])
      @ (case db_fault env_ok of None \<Rightarrow> [] | Some err \<Rightarrow> [Error ''DB Update Failed (Note)'' err])"
    by blast
  then have 4: "logged (updatePokemonNote env_ok 25 note_padded world_with_pikachu) = []"
    by (simp add: t2 f l)
  from th3 f have 5: "tbl (updatePokemonNote env_disk_full 25 note_padded world_with_pikachu) =
      tbl world_with_pikachu" by blast
  from 1 2 3 4 5 show ?thesis by blast
qed

text \<open>A space and 249 letters, 250 characters in all: the 200 characters persisted are
  letters only, not the first 200 characters of the input, which start with the space.
  With a full store the record keeps its note, and without a record nothing is stored.\<close>

theorem updatePokemonNote_counterexample:
  "length note_leading_space = 250 \<and>
   tbl (updatePokemonNote env_ok 25 note_leading_space world_with_pikachu) 25 =
     Some (pikachu_local\<lparr>note_txt := Some (replicate 200 (CHR ''a''))\<rparr>) \<and>
   replicate 200 (CHR ''a'') \<noteq> take 200 note_leading_space \<and>
   tbl (updatePokemonNote env_disk_full 25 ''hello'' world_with_pikachu) 25 = Some pikachu_local \<and>
   tbl (updatePokemonNote env_ok 25 ''hello'' empty_world) 25 = None"
proof -
  have a: "length note_leading_space = 250" by (simp add: note_leading_space_def)
  have f: "db_fault env_ok = None" by (simp add: env_ok_def)
  have r: "tbl world_with_pikachu 25 = Some pikachu_local"
    by (simp add: world_with_pikachu_def)
  have b: "tbl (updatePokemonNote env_ok 25 note_leading_space world_with_pikachu) 25 =
     Some (pikachu_local\<lparr>note_txt := Some (replicate 200 (CHR ''a''))\<rparr>)"
    by (simp add: updatePokemonNote_tbl [OF f r] trim_note_leading_space MAX_NOTE_LENGTH_def)
  have "hd (replicate 200 (CHR ''a'')) \<noteq> hd (take 200 note_leading_space)"
    by (simp add: note_leading_space_def)
  then have c: "replicate 200 (CHR ''a'') \<noteq> take 200 note_leading_space" by metis
  have d: "tbl (updatePokemonNote env_disk_full 25 ''hello'' world_with_pikachu) 25 = Some pikachu_local"
    by (simp add: updatePokemonNote_tbl_unchanged env_disk_full_def r)
  have e: "tbl (updatePokemonNote env_ok 25 ''hello'' empty_world) 25 = None"
    by (simp add: updatePokemonNote_tbl_unchanged empty_world_def)
  from a b c d e show ?thesis by simp
qed

section \<open>Image persistence adapter\<close>

text \<open>
  Claim C8. The request and the blob succeed and the \<open>FileReader\<close> reports an error: the
  conversion rejects with that error, logs nothing and does not return the URL it was
  given. (The failures of the request and of the blob are logged and answered with the
  URL.)
\<close>

theorem convertImageUrlToBase64_reader_error:
  "convertImageUrlToBase64 env_reader_error ''https://example.com/pikachu.png'' empty_world =
     (Inl ''NotReadableError'', empty_world\<lparr>io := [Fetch ''https://example.com/pikachu.png'']\<rparr>)"
  by (simp add: convertImageUrlToBase64_def env_reader_error_def env_ok_def empty_world_def)

section \<open>Detail resolver: loading flag\<close>

text \<open>
  Claim C9, amended. The loading flag is the disjunction of remote fetch outstanding and
  of local lookup outstanding outside a shared view, suppressed once a resolved value
  exists: outside a shared view it is the flag of the specification, and in a shared view
  the local lookup does not count, the flag being remote fetch outstanding and no remote
  value.
\<close>

theorem isEffectiveLoading_shared_gate:
  "(\<not> isSharedView st \<longrightarrow> isEffectiveLoading st = spec_loading st) \<and>
   (isSharedView st \<longrightarrow> isEffectiveLoading st = (isApiLoading st \<and> apiPokemon st = None)) \<and>
   (pokemon st \<noteq> None \<longrightarrow> \<not> isEffectiveLoading st)"
  by (auto simp add: isEffectiveLoading_def spec_loading_def pokemon_def)

theorem isEffectiveLoading_shared_gate_witness:
  "isEffectiveLoading owner_first_render \<and> \<not> isEffectiveLoading shared_first_render \<and>
   \<not> isEffectiveLoading owner_view"
  using isEffectiveLoading_shared_gate [of owner_first_render]
    isEffectiveLoading_shared_gate [of shared_first_render]
    isEffectiveLoading_shared_gate [of owner_view]
  by (simp add: owner_first_render_def shared_first_render_def owner_view_def isSharedView_def
      truthy_str_def spec_loading_def pokemon_def)

text \<open>In a shared view whose local lookup is outstanding, with no remote fetch
  outstanding and no resolved value, the flag of the code is off and the flag of the
  specification is on.\<close>

theorem isEffectiveLoading_counterexample:
  "\<not> isEffectiveLoading shared_first_render \<and> spec_loading shared_first_render"
  by (simp add: isEffectiveLoading_def spec_loading_def shared_first_render_def isSharedView_def
      pokemon_def truthy_str_def)

section \<open>Adapter: the statistic block\<close>

text \<open>
  Claim C10. For every raw payload, each of the six fields of the statistic block (hp,
  attack, defense, special-attack, special-defense, speed) is the \<open>base_stat\<close> of the
  first entry of the payload's \<open>stats\<close> with that name when there is one, and 0 when
  there is none.
\<close>

theorem adaptPokemon_stats:
  "hp (stats (adaptPokemon d)) =
     (case List.find (\<lambda>s. stat_name s = ''hp'') (raw_stats d) of None \<Rightarrow> 0 | Some s \<Rightarrow> base_stat s) \<and>
   attack (stats (adaptPokemon d)) =
     (case List.find (\<lambda>s. stat_name s = ''attack'') (raw_stats d) of None \<Rightarrow> 0 | Some s \<Rightarrow> base_stat s) \<and>
   defense (stats (adaptPokemon d)) =
     (case List.find (\<lambda>s. stat_name s = ''defense'') (raw_stats d) of None \<Rightarrow> 0 | Some s \<Rightarrow> base_stat s) \<and>
   specialAttack (stats (adaptPokemon d)) =
     (case List.find (\<lambda>s. stat_name s = ''special-attack'') (raw_stats d) of None \<Rightarrow> 0 | Some s \<Rightarrow> base_stat s) \<and>
   specialDefense (stats (adaptPokemon d)) =
     (case List.find (\<lambda>s. stat_name s = ''special-defense'') (raw_stats d) of None \<Rightarrow> 0 | Some s \<Rightarrow> base_stat s) \<and>
   speed (stats (adaptPokemon d)) =
     (case List.find (\<lambda>s. stat_name s = ''speed'') (raw_stats d) of None \<Rightarrow> 0 | Some s \<Rightarrow> base_stat s)"
  by (simp add: adaptPokemon_def stat_or_zero_find)

text \<open>The payload of the adapter's test has hp and attack only: the other four are 0.\<close>

theorem adaptPokemon_stats_witness:
  "stats (adaptPokemon pikachu_payload) =
     \<lparr> hp = 35, attack = 55, defense = 0, specialAttack = 0, specialDefense = 0, speed = 0 \<rparr>"
  using adaptPokemon_stats [of pikachu_payload]
  by (simp add: pikachu_payload_def)

end
